theory Spec2Isabelle
  imports Complex_Main "HOL-Library.Sublist" "HOL-Library.List_Lexorder" "HOL-Library.Char_ord" "HOL-Library.AList"
begin

section \<open>Demographic analysis: normalisation and equity analytics\<close>

text \<open>
  A shallow embedding of the analytic core of the repository: the schema normaliser
  and demographic classifier of \<^verbatim>\<open>utils/data_processor.py\<close>, the gap, scorecard and
  diversity computations of \<^verbatim>\<open>utils/data_processor.py\<close> and
  \<^verbatim>\<open>utils/advanced_analytics.py\<close>, the heatmap builders of
  \<^verbatim>\<open>utils/heatmap_fix.py\<close> and \<^verbatim>\<open>utils/improved_heatmap.py\<close>, and the
  consistency check of \<^verbatim>\<open>utils/data_health_checker.py\<close>.

  Numbers are modelled as reals: a Python float is read as the real it stands for, so
  rounding error of the binary representation is outside the model.
\<close>

subsection \<open>Strings\<close>

text \<open>
  Column names are byte strings. \<^verbatim>\<open>str.lower\<close> is modelled on ASCII: the letters
  \<^verbatim>\<open>A\<close> to \<^verbatim>\<open>Z\<close> get bit 5 set, every other byte is kept. \<^verbatim>\<open>str.strip\<close>
  removes the ASCII white space (bytes 9 to 13 and 28 to 32) at both ends. Python's
  \<^verbatim>\<open>a in b\<close> on strings is \<^const>\<open>sublist\<close>: \<^verbatim>\<open>a\<close> occurs in \<^verbatim>\<open>b\<close> as a
  contiguous block.
\<close>

definition lower_char :: "char \<Rightarrow> char" where
  "lower_char c = (if CHR ''A'' \<le> c \<and> c \<le> CHR ''Z''
     then Char (digit0 c) (digit1 c) (digit2 c) (digit3 c) (digit4 c) True (digit6 c) (digit7 c)
     else c)"

definition lower :: "string \<Rightarrow> string" where
  "lower s = map lower_char s"

definition is_space :: "char \<Rightarrow> bool" where
  "is_space c = (let n = (of_char c :: nat) in (9 \<le> n \<and> n \<le> 13) \<or> (28 \<le> n \<and> n \<le> 32))"

definition strip :: "string \<Rightarrow> string" where
  "strip s = rev (dropWhile is_space (rev (dropWhile is_space s)))"

text \<open>\<^verbatim>\<open>sep.join(xs)\<close>.\<close>

fun join :: "string \<Rightarrow> string list \<Rightarrow> string" where
  "join sep [] = []"
| "join sep [x] = x"
| "join sep (x # y # ys) = x @ sep @ join sep (y # ys)"

subsection \<open>Tables\<close>

text \<open>
  A pandas DataFrame is a list of column names and a list of rows; a row holds one cell
  per column, in column order. A cell is a number, a text or a blank (NaN).
  \<^verbatim>\<open>df[c]\<close> reads the column called \<^verbatim>\<open>c\<close>; the model takes the first column of
  that name.
\<close>

datatype cell = Num real | Str string | NA

type_synonym row = "cell list"

record dataframe =
  columns :: "string list"
  rows :: "row list"

fun index_of :: "'a \<Rightarrow> 'a list \<Rightarrow> nat option" where
  "index_of x [] = None"
| "index_of x (y # ys) = (if x = y then Some 0 else map_option Suc (index_of x ys))"

definition get_cell :: "string list \<Rightarrow> row \<Rightarrow> string \<Rightarrow> cell" where
  "get_cell cols r c =
     (case index_of c cols of
        None \<Rightarrow> NA
      | Some i \<Rightarrow> (if i < length r then r ! i else NA))"

text \<open>\<^verbatim>\<open>df.empty\<close>: no rows or no columns.\<close>

definition empty_frame :: "dataframe \<Rightarrow> bool" where
  "empty_frame df = (rows df = [] \<or> columns df = [])"

text \<open>
  \<^verbatim>\<open>Series.sum()\<close> of a numeric column skips the blanks. A count column of the
  canonical table holds numbers and blanks only.
\<close>

fun num :: "cell \<Rightarrow> real" where
  "num (Num x) = x"
| "num (Str s) = 0"
| "num NA = 0"

definition col_sum :: "dataframe \<Rightarrow> string \<Rightarrow> real" where
  "col_sum df c = sum_list (map (\<lambda>r. num (get_cell (columns df) r c)) (rows df))"

subsection \<open>Demographic classifier\<close>

text \<open>\<^verbatim>\<open>DataProcessor.get_demographic_columns\<close>, over the column names of the table.\<close>

definition approved_demographic_patterns :: "string list" where
  "approved_demographic_patterns =
    [''AAM'', ''AAF'', ''PCM'', ''PCF'', ''LGBTF'', ''OTHER_M'', ''OTHER_F'',
     ''ASM'', ''ASF'', ''HM'', ''HF'', ''NAM'', ''NAF'', ''PIM'', ''PIF'',
     ''LEGACY_M'', ''LEGACY_F'', ''PC_M'', ''PC_F'',
     ''african american male'', ''african american female'', ''african american'',
     ''asian male'', ''asian female'', ''asian'',
     ''caucasian male'', ''caucasian female'', ''caucasian'', ''white'',
     ''hispanic male'', ''hispanic female'', ''hispanic'', ''latino'', ''latina'',
     ''native american male'', ''native american female'', ''native american'',
     ''pacific islander male'', ''pacific islander female'', ''pacific islander'',
     ''lgbt'', ''lgbtq'', ''lgbtf'', ''lgbt female'', ''lgbt male'',
     ''legacy'', ''legacy male'', ''legacy female'',
     ''physically challenged'', ''physically challenged male'',
     ''physically challenged female'',
     ''other'', ''other male'', ''other female'',
     ''male'', ''female'']"

definition exclude_patterns :: "string list" where
  "exclude_patterns =
    [''total'', ''grade'', ''entity'', ''component'', ''desc'', ''description'',
     ''id'', ''name'', ''date'', ''time'', ''page'', ''folio'', ''number'', ''count'',
     ''row'', ''index'', ''file'', ''path'', ''url'', ''link'', ''reference'',
     ''score'', ''rating'', ''level'', ''category'', ''type'', ''status'']"

text \<open>
  One pass of the loop body: the exclusion test comes first and skips the column
  (\<^verbatim>\<open>continue\<close>); otherwise the column is kept at the first approved pattern found.
\<close>

definition is_demographic :: "string \<Rightarrow> bool" where
  "is_demographic col =
     (let col_lower = strip (lower col) in
      if list_ex (\<lambda>exclude. sublist exclude col_lower) exclude_patterns then False
      else list_ex (\<lambda>pattern. sublist (lower pattern) col_lower) approved_demographic_patterns)"

definition get_demographic_columns :: "dataframe \<Rightarrow> string list" where
  "get_demographic_columns df = filter is_demographic (columns df)"

subsection \<open>Schema normaliser\<close>

text \<open>
  \<^verbatim>\<open>DataProcessor._validate_data\<close>. The dictionary \<^verbatim>\<open>column_mappings\<close> is read in
  insertion order, so it is a list of pairs. The functions up to \<open>validate_data_text\<close>
  are the method on a table whose column labels are all strings; \<open>validate_data\<close>
  below is the method on a table as pandas reads it, where a label may be a number.
\<close>

datatype error = ValueError string | TypeError | KeyError | AttributeError

definition column_mappings :: "(string \<times> string list) list" where
  "column_mappings =
    [(''Grade'', [''grade'', ''level'', ''grade level'', ''gradelevel'']),
     (''EntityDesc'', [''entity'', ''entitydesc'', ''entity desc'', ''entity description'',
                       ''module'', ''lesson'', ''title'', ''content'', ''lesson title'']),
     (''Component Desc'', [''component'', ''componentdesc'', ''component desc'',
                           ''component description'', ''activity'', ''activity type'']),
     (''TOTAL'', [''total'', ''total people'', ''people'', ''count'', ''sum'', ''total count''])]"

definition norm_name :: "string \<Rightarrow> string" where
  "norm_name col = strip (lower col)"

text \<open>
  First pass: the first variation that equals a normalised column name, and then the
  first column with that normalised name (\<^verbatim>\<open>next(col for col in ...)\<close>).
\<close>

definition exact_match :: "string list \<Rightarrow> string list \<Rightarrow> string option" where
  "exact_match cols variations =
     (case find (\<lambda>variation. lower variation \<in> set (map norm_name cols)) variations of
        None \<Rightarrow> None
      | Some variation \<Rightarrow> find (\<lambda>col. norm_name col = lower variation) cols)"

text \<open>Second pass: the first column whose normalised name contains a variation.\<close>

definition partial_match :: "string list \<Rightarrow> string list \<Rightarrow> string option" where
  "partial_match cols variations =
     find (\<lambda>col. list_ex (\<lambda>var. sublist var (norm_name col)) variations) cols"

definition map_column :: "string list \<Rightarrow> string list \<Rightarrow> string option" where
  "map_column cols variations =
     (case exact_match cols variations of
        Some actual_col \<Rightarrow> Some actual_col
      | None \<Rightarrow> partial_match cols variations)"

definition mapped_columns :: "string list \<Rightarrow> (string \<times> string) list" where
  "mapped_columns cols =
     List.map_filter
       (\<lambda>(required_col, variations). map_option (Pair required_col) (map_column cols variations))
       column_mappings"

definition missing_required :: "string list \<Rightarrow> string list" where
  "missing_required cols =
     filter (\<lambda>col. col \<notin> set (map fst (mapped_columns cols))) (map fst column_mappings)"

text \<open>
  The message of the \<^verbatim>\<open>ValueError\<close>. \<^verbatim>\<open>{missing_required}\<close> prints the list as
  Python does: the names in single quotes, separated by a comma and a space, in square
  brackets.
\<close>

definition quote :: "string \<Rightarrow> string" where
  "quote s = CHR 0x27 # s @ [CHR 0x27]"

definition repr_list :: "string list \<Rightarrow> string" where
  "repr_list xs = ''['' @ join '', '' (map quote xs) @ '']''"

definition newline :: string where
  "newline = [CHR 0x0A]"

definition variations_of :: "string \<Rightarrow> string list" where
  "variations_of required_col = (case map_of column_mappings required_col of
      Some variations \<Rightarrow> variations | None \<Rightarrow> [])"

definition suggestion :: "string \<Rightarrow> string" where
  "suggestion missing_col =
     missing_col @ '': looking for columns like '' @ join '', '' (take 3 (variations_of missing_col))"

definition error_msg :: "string list \<Rightarrow> string" where
  "error_msg cols =
     ''Could not find required columns: '' @ repr_list (missing_required cols) @ newline @ newline
     @ ''Available columns in your file: '' @ join '', '' cols @ newline @ newline
     @ ''Suggestions:'' @ newline @ join newline (map suggestion (missing_required cols))"

text \<open>
  \<^verbatim>\<open>rename_dict = {v: k for k, v in mapped_columns.items()}\<close>: where two required
  columns were mapped to the same raw column, the later one overwrites the earlier.
  \<^verbatim>\<open>df.rename(columns=rename_dict)\<close> renames every column that is a key.
\<close>

definition rename_dict :: "string list \<Rightarrow> string \<Rightarrow> string option" where
  "rename_dict cols = map_of (rev (map (\<lambda>(k, v). (v, k)) (mapped_columns cols)))"

definition rename_columns :: "string list \<Rightarrow> string list" where
  "rename_columns cols =
     map (\<lambda>c. case rename_dict cols c of Some k \<Rightarrow> k | None \<Rightarrow> c) cols"

text \<open>
  \<^verbatim>\<open>pd.to_numeric(..., errors='coerce').fillna(0)\<close>. The parser of numeric text
  belongs to pandas and is a parameter: \<open>parse s\<close> is the number a text stands for,
  or \<open>None\<close>.
\<close>

fun to_numeric :: "(string \<Rightarrow> real option) \<Rightarrow> cell \<Rightarrow> cell" where
  "to_numeric parse (Num x) = Num x"
| "to_numeric parse (Str s) = (case parse s of Some x \<Rightarrow> Num x | None \<Rightarrow> NA)"
| "to_numeric parse NA = NA"

fun fillna0 :: "cell \<Rightarrow> cell" where
  "fillna0 NA = Num 0"
| "fillna0 c = c"

definition coerce_total :: "(string \<Rightarrow> real option) \<Rightarrow> dataframe \<Rightarrow> dataframe" where
  "coerce_total parse df =
     df\<lparr>rows := map (\<lambda>r. case index_of ''TOTAL'' (columns df) of
                           None \<Rightarrow> r
                         | Some i \<Rightarrow> r[i := fillna0 (to_numeric parse (get_cell (columns df) r ''TOTAL''))])
                     (rows df)\<rparr>"

text \<open>
  \<^verbatim>\<open>self.df['TOTAL']\<close> is a Series only when exactly one column is called
  \<^verbatim>\<open>TOTAL\<close>: with none the lookup raises \<^verbatim>\<open>KeyError\<close>, with several it is a
  frame, which \<^verbatim>\<open>pd.to_numeric\<close> refuses with \<^verbatim>\<open>TypeError\<close>.
\<close>

definition total_column_check :: "dataframe \<Rightarrow> error option" where
  "total_column_check df =
     (if ''TOTAL'' \<notin> set (columns df) then Some KeyError
      else if count_list (columns df) ''TOTAL'' > 1 then Some TypeError
      else None)"

definition validate_data_text :: "(string \<Rightarrow> real option) \<Rightarrow> dataframe \<Rightarrow> error + dataframe" where
  "validate_data_text parse df =
     (if missing_required (columns df) \<noteq> [] then Inl (ValueError (error_msg (columns df)))
      else
        let renamed = df\<lparr>columns := rename_columns (columns df)\<rparr> in
        case total_column_check renamed of
          Some e \<Rightarrow> Inl e
        | None \<Rightarrow> Inr (coerce_total parse renamed))"

text \<open>
  A column label of a table read from a file is a string or, for a numeric header cell,
  a number. The method starts with
  \<^verbatim>\<open>available_columns = [col.lower().strip() for col in self.df.columns]\<close>: a label
  that is not a string has no \<^verbatim>\<open>lower\<close>, and the comprehension raises
  \<^verbatim>\<open>AttributeError\<close> before any column is mapped.
\<close>

datatype label = Text string | Number real

record raw_frame =
  labels :: "label list"
  cells :: "row list"

fun label_lower_strip :: "label \<Rightarrow> error + string" where
  "label_lower_strip (Text col) = Inr (norm_name col)"
| "label_lower_strip (Number x) = Inl AttributeError"

fun available_columns :: "label list \<Rightarrow> error + string list" where
  "available_columns [] = Inr []"
| "available_columns (col # cols) =
     (case label_lower_strip col of
        Inl e \<Rightarrow> Inl e
      | Inr a \<Rightarrow> (case available_columns cols of Inl e \<Rightarrow> Inl e | Inr as \<Rightarrow> Inr (a # as)))"

fun text_of :: "label \<Rightarrow> string" where
  "text_of (Text col) = col"
| "text_of (Number x) = []"

definition validate_data :: "(string \<Rightarrow> real option) \<Rightarrow> raw_frame \<Rightarrow> error + dataframe" where
  "validate_data parse raw =
     (case available_columns (labels raw) of
        Inl e \<Rightarrow> Inl e
      | Inr available \<Rightarrow>
          validate_data_text parse \<lparr>columns = map text_of (labels raw), rows = cells raw\<rparr>)"

subsection \<open>The processor object and its tables\<close>

text \<open>
  DataFrames are objects: the caller's table and the processor's tables live in a
  store, and a variable holds a reference. \<^verbatim>\<open>df.copy()\<close>, \<^verbatim>\<open>df.rename(...)\<close> and
  \<^verbatim>\<open>df[mask]\<close> build a new object; \<^verbatim>\<open>self.df['TOTAL'] = ...\<close> writes into the
  object \<^verbatim>\<open>self.df\<close> refers to.
\<close>

type_synonym ref = nat

record store =
  frames :: "ref \<Rightarrow> dataframe"
  next_ref :: ref

record data_processor =
  self_df :: ref
  self_original_df :: ref

definition new_frame :: "dataframe \<Rightarrow> store \<Rightarrow> ref \<times> store" where
  "new_frame d s =
     (next_ref s, s\<lparr>frames := (frames s)(next_ref s := d), next_ref := Suc (next_ref s)\<rparr>)"

definition copy_frame :: "ref \<Rightarrow> store \<Rightarrow> ref \<times> store" where
  "copy_frame a s = new_frame (frames s a) s"

definition write_frame :: "ref \<Rightarrow> dataframe \<Rightarrow> store \<Rightarrow> store" where
  "write_frame a d s = s\<lparr>frames := (frames s)(a := d)\<rparr>"

text \<open>
  \<^verbatim>\<open>_validate_data\<close> on the object: the renamed table is a new object, bound to
  \<^verbatim>\<open>self.df\<close>, and the assignment to its \<^verbatim>\<open>TOTAL\<close> column updates that object in
  place. An exception leaves the store as it is at that point. The tables of the store
  have strings as column labels.
\<close>

definition validate_data_obj ::
  "(string \<Rightarrow> real option) \<Rightarrow> data_processor \<Rightarrow> store \<Rightarrow> (error + data_processor) \<times> store" where
  "validate_data_obj parse p s =
     (let d = frames s (self_df p) in
      if missing_required (columns d) \<noteq> [] then (Inl (ValueError (error_msg (columns d))), s)
      else
        let (r, s1) = new_frame (d\<lparr>columns := rename_columns (columns d)\<rparr>) s;
            p1 = p\<lparr>self_df := r\<rparr>
        in case total_column_check (frames s1 r) of
             Some e \<Rightarrow> (Inl e, s1)
           | None \<Rightarrow> (Inr p1, write_frame r (coerce_total parse (frames s1 r)) s1))"

text \<open>\<^verbatim>\<open>DataProcessor.__init__\<close>, given the reference to the caller's table.\<close>

definition DataProcessor_init ::
  "(string \<Rightarrow> real option) \<Rightarrow> ref \<Rightarrow> store \<Rightarrow> (error + data_processor) \<times> store" where
  "DataProcessor_init parse a s =
     (let (r1, s1) = copy_frame a s;
          (r2, s2) = copy_frame a s1
      in validate_data_obj parse \<lparr>self_df = r1, self_original_df = r2\<rparr> s2)"

subsection \<open>Filters\<close>




text \<open>
  On the object: the copy and every filtered table are new objects. Here only the
  objects matter, whatever the filtered tables hold.
\<close>

fun apply_filters_loop_obj :: "(string \<times> cell list) list \<Rightarrow> ref \<Rightarrow> store \<Rightarrow> ref \<times> store" where
  "apply_filters_loop_obj [] filtered_df s = (filtered_df, s)"
| "apply_filters_loop_obj ((column, values) # filters) filtered_df s =
     (let d = frames s filtered_df in
      if column \<in> set (columns d) \<and> values \<noteq> []
      then (let (r, s1) = new_frame
                  (d\<lparr>rows := filter (\<lambda>r. get_cell (columns d) r column \<in> set values) (rows d)\<rparr>) s
            in apply_filters_loop_obj filters r s1)
      else apply_filters_loop_obj filters filtered_df s)"

definition apply_filters_obj ::
  "data_processor \<Rightarrow> (string \<times> cell list) list \<Rightarrow> store \<Rightarrow> ref \<times> store" where
  "apply_filters_obj p filters s =
     (let (filtered_df, s1) = copy_frame (self_df p) s
      in apply_filters_loop_obj filters filtered_df s1)"

subsection \<open>Targets and percentages\<close>

text \<open>
  A TargetConfiguration is a dictionary from names to percentages. The heatmaps, the
  scorecard and the per-module gap analysis resolve a target with
  \<^verbatim>\<open>targets.get(demo_col.lower(), targets.get(demo_col, 10))\<close>.
\<close>

type_synonym targets = "string \<Rightarrow> real option"

definition target_pct_of :: "targets \<Rightarrow> string \<Rightarrow> real" where
  "target_pct_of targets demo_col =
     (case targets (lower demo_col) of
        Some t \<Rightarrow> t
      | None \<Rightarrow> (case targets demo_col of Some t \<Rightarrow> t | None \<Rightarrow> 10))"

text \<open>\<^verbatim>\<open>round(x, 2)\<close>: to the nearest hundredth, a tie to the even neighbour.\<close>

definition round_half_even :: "real \<Rightarrow> int" where
  "round_half_even y =
     (let f = \<lfloor>y\<rfloor>; d = y - of_int f in
      if d < 1 / 2 then f else if d > 1 / 2 then f + 1 else if even f then f else f + 1)"

definition round2 :: "real \<Rightarrow> real" where
  "round2 x = of_int (round_half_even (x * 100)) / 100"

text \<open>\<^verbatim>\<open>Series.unique()\<close>: the values in order of first appearance.\<close>

definition unique :: "'a list \<Rightarrow> 'a list" where
  "unique xs = rev (remdups (rev xs))"

text \<open>
  \<^verbatim>\<open>df[df['EntityDesc'] == entity]\<close>: a blank never equals anything, itself included.
\<close>

definition entity_data_of :: "dataframe \<Rightarrow> cell \<Rightarrow> dataframe" where
  "entity_data_of df entity =
     df\<lparr>rows := filter (\<lambda>r. entity \<noteq> NA \<and> get_cell (columns df) r ''EntityDesc'' = entity) (rows df)\<rparr>"

definition entities :: "dataframe \<Rightarrow> cell list" where
  "entities df = unique (map (\<lambda>r. get_cell (columns df) r ''EntityDesc'') (rows df))"

subsection \<open>Gaps against targets\<close>

text \<open>
  \<^verbatim>\<open>DataProcessor.calculate_demographic_gaps\<close>. The demographic columns are those of
  the processor's own table \<open>own_df\<close>; the sums are taken over the table \<open>df\<close> that
  is passed in. An empty \<^verbatim>\<open>pd.DataFrame()\<close> is the empty list. When no demographic
  column is a column of \<open>df\<close>, the frame built from the empty \<^verbatim>\<open>gaps_data\<close> has no
  column \<^verbatim>\<open>Gap\<close> and \<^verbatim>\<open>sort_values('Gap')\<close> raises \<^verbatim>\<open>KeyError\<close>, as does
  \<^verbatim>\<open>df['TOTAL']\<close> on a table without that column.
\<close>

datatype gap_status = Over_Target | Under_Target | On_Target

record gap_record =
  Demographic :: string
  Actual_Count :: real
  Actual_pct :: real
  Target_pct :: real
  Gap :: real
  Gap_Status :: gap_status

definition gap_row :: "dataframe \<Rightarrow> targets \<Rightarrow> real \<Rightarrow> string \<Rightarrow> gap_record" where
  "gap_row df targets total_people demo_col =
     (let actual_count = col_sum df demo_col;
          actual_percentage = (actual_count / total_people) * 100;
          target_percentage = (case targets demo_col of Some t \<Rightarrow> t | None \<Rightarrow> 0);
          gap = actual_percentage - target_percentage
      in \<lparr>Demographic = demo_col,
          Actual_Count = actual_count,
          Actual_pct = round2 actual_percentage,
          Target_pct = target_percentage,
          Gap = round2 gap,
          Gap_Status = (if gap > 0 then Over_Target else if gap < 0 then Under_Target else On_Target)\<rparr>)"

definition calculate_demographic_gaps ::
  "dataframe \<Rightarrow> dataframe \<Rightarrow> targets \<Rightarrow> error + gap_record list" where
  "calculate_demographic_gaps own_df df targets =
     (let demographic_cols = get_demographic_columns own_df in
      if demographic_cols = [] \<or> empty_frame df then Inr []
      else if ''TOTAL'' \<notin> set (columns df) then Inl KeyError
      else
        let total_people = col_sum df ''TOTAL'' in
        if total_people = 0 then Inr []
        else
          let gaps_data = map (gap_row df targets total_people)
                            (filter (\<lambda>demo_col. demo_col \<in> set (columns df)) demographic_cols)
          in if gaps_data = [] then Inl KeyError else Inr (sort_key Gap gaps_data))"

text \<open>
  \<^verbatim>\<open>ComprehensiveExporter._create_analysis_json\<close>, the entry of one demographic in
  \<^verbatim>\<open>demographic_analysis\<close>: the status of this sibling has a band of two points.
\<close>

datatype band_status = on_target | over | under

definition band_status_of :: "real \<Rightarrow> band_status" where
  "band_status_of gap = (if \<bar>gap\<bar> \<le> 2 then on_target else if gap > 0 then over else under)"

subsection \<open>Percentages by module\<close>

text \<open>\<^verbatim>\<open>DataProcessor.calculate_demographic_percentages\<close>: one row per module kept.\<close>

definition percentage_row :: "string list \<Rightarrow> dataframe \<Rightarrow> real \<Rightarrow> (string \<times> real) list" where
  "percentage_row demographic_cols entity_data total_people =
     map (\<lambda>demo_col.
            if demo_col \<in> set (columns entity_data)
            then (demo_col, round2 (if total_people > 0
                                     then (col_sum entity_data demo_col / total_people) * 100 else 0))
            else (demo_col, 0))
         demographic_cols"

definition calculate_demographic_percentages ::
  "dataframe \<Rightarrow> dataframe \<Rightarrow> (cell \<times> (string \<times> real) list) list" where
  "calculate_demographic_percentages own_df df =
     (let demographic_cols = get_demographic_columns own_df in
      if demographic_cols = [] \<or> empty_frame df then []
      else List.map_filter
             (\<lambda>entity.
                let entity_data = entity_data_of df entity in
                if empty_frame entity_data then None
                else let total_people = col_sum entity_data ''TOTAL'' in
                  if total_people = 0 then None
                  else Some (entity, percentage_row demographic_cols entity_data total_people))
             (entities df))"

subsection \<open>Equity scorecard\<close>

text \<open>
  \<^verbatim>\<open>AdvancedDemographicAnalytics.generate_equity_scorecard\<close>. The sums of pandas are
  numpy numbers, and a numpy division by zero does not raise: it gives \<^verbatim>\<open>nan\<close> for
  \<^verbatim>\<open>0/0\<close> and an infinity otherwise, with a warning. These values are part of the
  model where the scorecard divides.
\<close>

datatype npfloat = Fin real | PInf | NInf | NaN

definition np_pct :: "real \<Rightarrow> real \<Rightarrow> npfloat" where
  "np_pct actual_count total_people =
     (if total_people \<noteq> 0 then Fin ((actual_count / total_people) * 100)
      else if actual_count = 0 then NaN
      else if actual_count > 0 then PInf else NInf)"

fun np_sub :: "npfloat \<Rightarrow> real \<Rightarrow> npfloat" where
  "np_sub (Fin a) t = Fin (a - t)"
| "np_sub x t = x"

fun np_rsub :: "real \<Rightarrow> npfloat \<Rightarrow> npfloat" where
  "np_rsub t (Fin a) = Fin (t - a)"
| "np_rsub t PInf = NInf"
| "np_rsub t NInf = PInf"
| "np_rsub t NaN = NaN"

fun np_abs :: "npfloat \<Rightarrow> npfloat" where
  "np_abs (Fin a) = Fin \<bar>a\<bar>"
| "np_abs PInf = PInf"
| "np_abs NInf = PInf"
| "np_abs NaN = NaN"

fun np_gt :: "npfloat \<Rightarrow> real \<Rightarrow> bool" where
  "np_gt (Fin a) c = (a > c)"
| "np_gt PInf c = True"
| "np_gt NInf c = False"
| "np_gt NaN c = False"

fun np_lt :: "npfloat \<Rightarrow> real \<Rightarrow> bool" where
  "np_lt (Fin a) c = (a < c)"
| "np_lt PInf c = False"
| "np_lt NInf c = True"
| "np_lt NaN c = False"

text \<open>
  \<^verbatim>\<open>max(0, 100 - (gap * 5))\<close> with \<^verbatim>\<open>gap = abs(...)\<close>: Python's \<^verbatim>\<open>max\<close> keeps its
  first argument unless a later one is greater, so a \<^verbatim>\<open>nan\<close> and a negative infinity
  give 0. The gap is an absolute value and is never the negative infinity.
\<close>

fun score_of_gap :: "npfloat \<Rightarrow> real" where
  "score_of_gap (Fin g) = max 0 (100 - g * 5)"
| "score_of_gap x = 0"

record demographic_score =
  ds_score :: real
  ds_actual :: npfloat
  ds_target :: real
  ds_gap :: npfloat

datatype recommendation = Increase string npfloat | Consider_balancing string npfloat

record scorecard =
  overall_score :: real
  demographic_scores :: "(string \<times> demographic_score) list"
  recommendations :: "recommendation list"

definition scorecard_step :: "dataframe \<Rightarrow> targets \<Rightarrow> real \<Rightarrow> string \<Rightarrow> scorecard \<Rightarrow> scorecard" where
  "scorecard_step df targets total_people demo_col sc =
     (if demo_col \<in> set (columns df) then
        let actual_count = col_sum df demo_col;
            actual_pct = np_pct actual_count total_people;
            target_pct = target_pct_of targets demo_col;
            gap = np_abs (np_sub actual_pct target_pct);
            sc1 = sc\<lparr>demographic_scores :=
                      AList.update demo_col
                        \<lparr>ds_score = score_of_gap gap, ds_actual = actual_pct,
                         ds_target = target_pct, ds_gap = np_sub actual_pct target_pct\<rparr>
                        (demographic_scores sc)\<rparr>
        in if np_gt gap 10
           then sc1\<lparr>recommendations := recommendations sc1 @
                       [if np_lt actual_pct target_pct
                        then Increase demo_col (np_rsub target_pct actual_pct)
                        else Consider_balancing demo_col (np_sub actual_pct target_pct)]\<rparr>
           else sc1
      else sc)"

definition generate_equity_scorecard :: "dataframe \<Rightarrow> string list \<Rightarrow> targets \<Rightarrow> scorecard" where
  "generate_equity_scorecard df demographic_cols targets =
     (let total_people = col_sum df ''TOTAL'';
          sc = fold (scorecard_step df targets total_people) demographic_cols
                 \<lparr>overall_score = 0, demographic_scores = [], recommendations = []\<rparr>
      in if demographic_scores sc \<noteq> []
         then sc\<lparr>overall_score := sum_list (map (ds_score \<circ> snd) (demographic_scores sc))
                                     / real (length (demographic_scores sc))\<rparr>
         else sc)"

subsection \<open>Gaps by module\<close>


subsection \<open>Example tables\<close>

definition df_gap :: dataframe where
  "df_gap = \<lparr>columns = [''Grade'', ''EntityDesc'', ''Component Desc'', ''TOTAL'', ''AAM''],
             rows = [[Str ''Gr. 4'', Str ''Fractions'', Str ''Video'', Num 100, Num 11]]\<rparr>"



definition df_zero :: dataframe where
  "df_zero = \<lparr>columns = [''EntityDesc'', ''TOTAL'', ''AAM''],
              rows = [[Str ''Fractions'', Num 0, Num 0]]\<rparr>"

definition df1 :: dataframe where
  "df1 = \<lparr>columns = [''Grade Level'', ''Lesson Title'', ''Activity'', '' Total People '', ''AAM''],
          rows = [[Str ''Gr. 4'', Str ''Fractions'', Str ''Video'', Str ''12x'', Num 3],
                  [Str ''Gr. 5'', Str ''Decimals'', Str ''Quiz'', Num 20, Num 5]]\<rparr>"

definition df1_canonical :: dataframe where
  "df1_canonical = \<lparr>columns = [''Grade'', ''EntityDesc'', ''Component Desc'', ''TOTAL'', ''AAM''],
          rows = [[Str ''Gr. 4'', Str ''Fractions'', Str ''Video'', Num 0, Num 3],
                  [Str ''Gr. 5'', Str ''Decimals'', Str ''Quiz'', Num 20, Num 5]]\<rparr>"


definition filters2 :: "(string \<times> cell list) list" where
  "filters2 = [(''Grade'', [Str ''Gr. 4'']), (''Region'', [Str ''North'']), (''EntityDesc'', [])]"


definition store0 :: store where
  "store0 = \<lparr>frames = (\<lambda>_. df1), next_ref = 1\<rparr>"

definition cols0 :: "string list" where
  "cols0 = [''Grade'', ''Module'', ''Component'']"

definition raw0 :: raw_frame where
  "raw0 = \<lparr>labels = [Text ''Grade'', Text ''Module'', Text ''Component''], cells = []\<rparr>"

definition raw1 :: raw_frame where
  "raw1 = \<lparr>labels = [Text ''Grade Level'', Text ''Lesson Title'', Text ''Activity'',
                      Text '' Total People '', Text ''AAM''],
           cells = [[Str ''Gr. 4'', Str ''Fractions'', Str ''Video'', Str ''12x'', Num 3],
                    [Str ''Gr. 5'', Str ''Decimals'', Str ''Quiz'', Num 20, Num 5]]\<rparr>"

definition raw_numbered :: raw_frame where
  "raw_numbered = \<lparr>labels = [Text ''Grade'', Text ''Module'', Number 2024], cells = []\<rparr>"

section \<open>Properties\<close>

subsection \<open>Evaluation of strings\<close>

lemmas string_eval =
  lower_def lower_char_def strip_def is_space_def less_eq_char_def sublist_Cons_right

lemma dropWhile_keeps_block:
  assumes "e \<noteq> []" and "\<not> P (hd e)"
  shows "\<exists>ps'. dropWhile P (ps @ e @ ss) = ps' @ e @ ss"
proof (induction ps)
  case Nil
  from assms obtain x xs where "e = x # xs" and "\<not> P x"
    by (cases e) auto
  then have "dropWhile P ([] @ e @ ss) = [] @ e @ ss"
    by simp
  then show ?case by blast
next
  case (Cons p ps)
  then obtain ps' where h: "dropWhile P (ps @ e @ ss) = ps' @ e @ ss"
    by blast
  show ?case
  proof (cases "P p")
    case True
    then show ?thesis using h by simp
  next
    case False
    then have "dropWhile P ((p # ps) @ e @ ss) = (p # ps) @ e @ ss"
      by simp
    then show ?thesis by blast
  qed
qed

lemma sublist_strip:
  assumes "e \<noteq> []" and "\<not> is_space (hd e)" and "\<not> is_space (last e)"
    and "sublist e s"
  shows "sublist e (strip s)"
proof -
  from \<open>sublist e s\<close> obtain ps ss where s: "s = ps @ e @ ss"
    by (auto simp: sublist_def)
  from dropWhile_keeps_block [where e = e and P = is_space and ps = ps and ss = ss] assms(1,2)
  obtain ps' where a: "dropWhile is_space (ps @ e @ ss) = ps' @ e @ ss"
    by blast
  have "rev e \<noteq> []" and "\<not> is_space (hd (rev e))"
    using assms(1,3) by (simp_all add: hd_rev)
  with dropWhile_keeps_block [where e = "rev e" and P = is_space and ps = "rev ss" and ss = "rev ps'"]
  obtain qs where b: "dropWhile is_space (rev ss @ rev e @ rev ps') = qs @ rev e @ rev ps'"
    by blast
  have "strip s = ps' @ e @ rev qs"
    by (simp add: strip_def s a b)
  then show ?thesis
    by (simp add: sublist_def) blast
qed

lemma exclude_patterns_no_space:
  "list_all (\<lambda>e. e \<noteq> [] \<and> \<not> is_space (hd e) \<and> \<not> is_space (last e)) exclude_patterns"
  by (simp add: exclude_patterns_def is_space_def)

lemma excluded_not_demographic:
  assumes "e \<in> set exclude_patterns" and "sublist e (lower col)"
  shows "\<not> is_demographic col"
proof -
  from assms(1) exclude_patterns_no_space
  have "e \<noteq> []" "\<not> is_space (hd e)" "\<not> is_space (last e)"
    by (auto simp: list_all_iff)
  from sublist_strip [OF this assms(2)] have "sublist e (strip (lower col))" .
  with assms(1) have "list_ex (\<lambda>exclude. sublist exclude (strip (lower col))) exclude_patterns"
    by (auto simp: list_ex_iff)
  then show ?thesis
    by (simp add: is_demographic_def)
qed

lemma total_score_not_demographic: "\<not> is_demographic ''Total Score''"
  by (rule excluded_not_demographic [of "''score''"])
     (simp_all add: exclude_patterns_def string_eval)

subsection \<open>The classifier: exclusion before inclusion\<close>

text \<open>
  Claim C8. A column whose lower-cased name contains one of the exclusion patterns is
  never returned by \<^verbatim>\<open>get_demographic_columns\<close>, whatever approved pattern it
  contains as well; in particular the column \<^verbatim>\<open>Total Score\<close> is never returned.
\<close>

theorem exclusion_wins_over_inclusion:
  "(e \<in> set exclude_patterns \<and> sublist e (lower col)
      \<longrightarrow> col \<notin> set (get_demographic_columns df))
   \<and> ''Total Score'' \<notin> set (get_demographic_columns df)"
  using excluded_not_demographic [of e col] total_score_not_demographic
  by (auto simp: get_demographic_columns_def)

theorem exclusion_wins_over_inclusion_witness:
  "''count'' \<in> set exclude_patterns \<and> sublist ''count'' (lower ''Female Count'')
   \<and> sublist (lower ''female'') (strip (lower ''Female Count''))
   \<and> ''female'' \<in> set approved_demographic_patterns
   \<and> ''Female Count'' \<notin> set (get_demographic_columns
        \<lparr>columns = [''AAM'', ''Female Count'', ''Total Score''], rows = []\<rparr>)
   \<and> ''Total Score'' \<notin> set (get_demographic_columns
        \<lparr>columns = [''AAM'', ''Female Count'', ''Total Score''], rows = []\<rparr>)"
proof -
  have h: "''count'' \<in> set exclude_patterns \<and> sublist ''count'' (lower ''Female Count'')"
    by (simp add: exclude_patterns_def string_eval)
  have w: "sublist (lower ''female'') (strip (lower ''Female Count''))
      \<and> ''female'' \<in> set approved_demographic_patterns"
    by (simp add: approved_demographic_patterns_def string_eval)
  from h w exclusion_wins_over_inclusion [of "''count''" "''Female Count''"
      "\<lparr>columns = [''AAM'', ''Female Count'', ''Total Score''], rows = []\<rparr>"]
  show ?thesis by blast
qed

subsection \<open>Filtering\<close>






subsection \<open>References are fresh\<close>

lemma new_frame_old: "new_frame d s = (r, s') \<Longrightarrow> b < next_ref s \<Longrightarrow> frames s' b = frames s b"
  by (auto simp: new_frame_def)

lemma new_frame_ref: "new_frame d s = (r, s') \<Longrightarrow> r = next_ref s \<and> next_ref s' = Suc (next_ref s)"
  by (auto simp: new_frame_def)

lemma apply_filters_loop_obj_old:
  "apply_filters_loop_obj fs a s = (r, s') \<Longrightarrow>
     next_ref s \<le> next_ref s' \<and> (\<forall>b < next_ref s. frames s' b = frames s b)
     \<and> (r = a \<or> next_ref s \<le> r)"
proof (induction fs a s arbitrary: r s' rule: apply_filters_loop_obj.induct)
  case (1 filtered_df s)
  then show ?case by simp
next
  case (2 column "values" filters filtered_df s)
  show ?case
  proof (cases "column \<in> set (columns (frames s filtered_df)) \<and> values \<noteq> []")
    case True
    obtain r1 s1 where n: "new_frame ((frames s filtered_df)\<lparr>rows := filter (\<lambda>r. get_cell (columns (frames s filtered_df)) r column \<in> set values) (rows (frames s filtered_df))\<rparr>) s = (r1, s1)"
      by (cases "new_frame ((frames s filtered_df)\<lparr>rows := filter (\<lambda>r. get_cell (columns (frames s filtered_df)) r column \<in> set values) (rows (frames s filtered_df))\<rparr>) s") blast
    with True "2.prems" have rec: "apply_filters_loop_obj filters r1 s1 = (r, s')"
      by (simp add: Let_def)
    from "2.IH"(1) [OF refl True refl n [symmetric] rec]
    have ih: "next_ref s1 \<le> next_ref s' \<and> (\<forall>b<next_ref s1. frames s' b = frames s1 b) \<and> (r = r1 \<or> next_ref s1 \<le> r)" .
    from new_frame_ref [OF n] have nr: "r1 = next_ref s" "next_ref s1 = Suc (next_ref s)"
      by simp_all
    from new_frame_old [OF n] have old: "\<And>b. b < next_ref s \<Longrightarrow> frames s1 b = frames s b" .
    show ?thesis
      using ih nr old by auto
  next
    case False
    with "2.prems" have rec: "apply_filters_loop_obj filters filtered_df s = (r, s')"
      by (auto simp: Let_def)
    from "2.IH"(2) [OF refl False rec] show ?thesis .
  qed
qed

lemma sublist_append_right: "sublist x b \<Longrightarrow> sublist x (a @ b)"
  by (metis sublist_append)

lemma sublist_append_left: "sublist x a \<Longrightarrow> sublist x (a @ b)"
  by (metis sublist_append)

lemma in_join: "x \<in> set xs \<Longrightarrow> sublist x (join sep xs)"
proof (induction sep xs rule: join.induct)
  case (1 sep)
  then show ?case by simp
next
  case (2 sep y)
  then show ?case by simp
next
  case (3 sep y z zs)
  show ?case
  proof (cases "x = y")
    case True
    then show ?thesis by simp
  next
    case False
    with 3 have "sublist x (join sep (z # zs))" by simp
    then have "sublist x ((y @ sep) @ join sep (z # zs))"
      by (rule sublist_append_right)
    then show ?thesis by simp
  qed
qed

lemma mapped_keys:
  "set (map fst (List.map_filter (\<lambda>(k, v). map_option (Pair k) (g v)) cm))
     = {k. \<exists>v. (k, v) \<in> set cm \<and> g v \<noteq> None}"
  by (force simp: List.map_filter_def image_iff)

lemma missing_char_general:
  assumes "distinct (map fst cm)"
  shows "filter (\<lambda>k. k \<notin> set (map fst (List.map_filter (\<lambda>(k, v). map_option (Pair k) (g v)) cm)))
            (map fst cm)
         = map fst (filter (\<lambda>(k, v). g v = None) cm)"
proof -
  let ?M = "{k. \<exists>v. (k, v) \<in> set cm \<and> g v \<noteq> None}"
  have 1: "filter (\<lambda>k. k \<notin> ?M) (map fst cm) = map fst (filter (\<lambda>kv. fst kv \<notin> ?M) cm)"
    by (simp add: filter_map comp_def)
  have 2: "filter (\<lambda>kv. fst kv \<notin> ?M) cm = filter (\<lambda>(k, v). g v = None) cm"
  proof (rule filter_cong [OF refl])
    fix kv assume m: "kv \<in> set cm"
    obtain k v where kv0: "kv = (k, v)" by (cases kv)
    with m have kv: "(k, v) \<in> set cm" by simp
    have u: "\<And>v'. (k, v') \<in> set cm \<Longrightarrow> v' = v"
      by (rule eq_key_imp_eq_value [OF assms _ kv])
    have "k \<in> ?M \<longleftrightarrow> g v \<noteq> None"
    proof
      assume "k \<in> ?M"
      then obtain v' where "(k, v') \<in> set cm" "g v' \<noteq> None" by blast
      with u show "g v \<noteq> None" by blast
    next
      assume "g v \<noteq> None"
      with kv show "k \<in> ?M" by blast
    qed
    then show "(fst kv \<notin> ?M) = (case kv of (k, v) \<Rightarrow> g v = None)"
      by (simp add: kv0)
  qed
  show ?thesis
    unfolding mapped_keys 1 2 ..
qed

lemma column_mappings_distinct: "distinct (map fst column_mappings)"
  by (simp add: column_mappings_def)

lemma missing_required_char:
  "missing_required cols =
     map fst (filter (\<lambda>(required_col, variations). map_column cols variations = None) column_mappings)"
  unfolding missing_required_def mapped_columns_def
  by (rule missing_char_general [OF column_mappings_distinct])

lemma variations_of_mapping:
  "(k, v) \<in> set column_mappings \<Longrightarrow> variations_of k = v"
  using map_of_is_SomeI [OF column_mappings_distinct, of k v]
  by (simp add: variations_of_def)

lemma missing_required_iff:
  "m \<in> set (missing_required cols) \<longleftrightarrow>
     m \<in> set (map fst column_mappings) \<and> map_column cols (variations_of m) = None"
proof
  assume "m \<in> set (missing_required cols)"
  then obtain kv where kv: "kv \<in> set column_mappings" "map_column cols (snd kv) = None" "m = fst kv"
    unfolding missing_required_char set_map set_filter by (auto split: prod.splits)
  then have "(m, snd kv) \<in> set column_mappings" by simp
  from variations_of_mapping [OF this] kv
  show "m \<in> set (map fst column_mappings) \<and> map_column cols (variations_of m) = None"
    by (simp add: image_iff) (metis)
next
  assume a: "m \<in> set (map fst column_mappings) \<and> map_column cols (variations_of m) = None"
  then obtain vs where vs: "(m, vs) \<in> set column_mappings"
    unfolding set_map by (auto simp: image_iff)
  from variations_of_mapping [OF vs] a have "map_column cols vs = None" by simp
  with vs have "(m, vs) \<in> set (filter (\<lambda>(required_col, variations). map_column cols variations = None) column_mappings)"
    by simp
  then have "fst (m, vs) \<in> fst ` set (filter (\<lambda>(required_col, variations). map_column cols variations = None) column_mappings)"
    by (rule imageI)
  then show "m \<in> set (missing_required cols)"
    unfolding missing_required_char set_map by simp
qed

lemma missing_in_msg:
  assumes "m \<in> set (missing_required cols)"
  shows "sublist (quote m) (error_msg cols)"
proof -
  have "sublist (quote m) (join '', '' (map quote (missing_required cols)))"
    using assms by (intro in_join) simp
  then have "sublist (quote m) (repr_list (missing_required cols))"
    unfolding repr_list_def by (intro sublist_append_right sublist_append_left)
  then show ?thesis
    unfolding error_msg_def by (intro sublist_append_right sublist_append_left)
qed

lemma column_in_msg:
  assumes "c \<in> set cols"
  shows "sublist c (error_msg cols)"
proof -
  have "sublist c (join '', '' cols)"
    using assms by (rule in_join)
  then show ?thesis
    unfolding error_msg_def
    by (intro sublist_append_right sublist_append_left)
qed

lemma suggestion_in_msg:
  assumes "m \<in> set (missing_required cols)"
  shows "sublist (suggestion m) (error_msg cols)"
proof -
  have "sublist (suggestion m) (join newline (map suggestion (missing_required cols)))"
    using assms by (intro in_join) simp
  then show ?thesis
    unfolding error_msg_def
    by (intro sublist_append_right)
qed

lemma variation_in_suggestion:
  assumes "v \<in> set (take 3 (variations_of m))"
  shows "sublist v (suggestion m)"
  unfolding suggestion_def
  by (intro sublist_append_right in_join assms)

lemmas validate_eval =
  validate_data_text_def missing_required_def mapped_columns_def column_mappings_def map_column_def
  exact_match_def partial_match_def norm_name_def List.map_filter_def string_eval
  rename_columns_def rename_dict_def total_column_check_def coerce_total_def get_cell_def
  error_msg_def repr_list_def quote_def suggestion_def variations_of_def newline_def

subsection \<open>The processor leaves the tables it is given alone\<close>

lemma validate_data_obj_old:
  assumes "validate_data_obj parse p s = (res, s')"
  shows "next_ref s \<le> next_ref s' \<and> (\<forall>b < next_ref s. frames s' b = frames s b)
         \<and> (\<forall>p'. res = Inr p' \<longrightarrow> self_df p' < next_ref s' \<and> next_ref s \<le> self_df p')"
  using assms
  by (auto simp: validate_data_obj_def new_frame_def write_frame_def Let_def
           split: if_splits option.splits)

lemma validate_data_obj_frame:
  assumes "validate_data_obj parse p s = (Inr p', s')"
  shows "validate_data_text parse (frames s (self_df p)) = Inr (frames s' (self_df p'))"
  using assms
  by (auto simp: validate_data_obj_def validate_data_text_def new_frame_def write_frame_def Let_def
           split: if_splits option.splits)

lemma validate_data_obj_error:
  assumes "validate_data_obj parse p s = (Inl e, s')"
  shows "validate_data_text parse (frames s (self_df p)) = Inl e"
  using assms
  by (auto simp: validate_data_obj_def validate_data_text_def new_frame_def write_frame_def Let_def
           split: if_splits option.splits)

lemma DataProcessor_init_old:
  assumes "DataProcessor_init parse a s = (res, s')"
  shows "next_ref s \<le> next_ref s' \<and> (\<forall>b < next_ref s. frames s' b = frames s b)
         \<and> (\<forall>p. res = Inr p \<longrightarrow> self_df p < next_ref s' \<and> next_ref s \<le> self_df p)"
proof -
  let ?s1 = "snd (copy_frame a s)"
  let ?s2 = "snd (copy_frame a ?s1)"
  let ?p = "\<lparr>self_df = fst (copy_frame a s), self_original_df = fst (copy_frame a ?s1)\<rparr>"
  from assms have v: "validate_data_obj parse ?p ?s2 = (res, s')"
    by (simp add: DataProcessor_init_def Let_def split_beta)
  have c: "next_ref ?s2 = Suc (Suc (next_ref s))" "\<And>b. b < next_ref s \<Longrightarrow> frames ?s2 b = frames s b"
    by (simp_all add: copy_frame_def new_frame_def)
  from validate_data_obj_old [OF v]
  have o: "next_ref ?s2 \<le> next_ref s'" "\<And>b. b < next_ref ?s2 \<Longrightarrow> frames s' b = frames ?s2 b"
    "\<And>p. res = Inr p \<Longrightarrow> self_df p < next_ref s' \<and> next_ref ?s2 \<le> self_df p"
    by blast+
  have 1: "next_ref s \<le> next_ref s'"
    using o(1) c(1) by simp
  have 2: "frames s' b = frames s b" if "b < next_ref s" for b
    using o(2) [of b] c(1) c(2) [OF that] that by simp
  have 3: "self_df p < next_ref s' \<and> next_ref s \<le> self_df p" if "res = Inr p" for p
    using o(3) [OF that] c(1) by simp
  from 1 2 3 show ?thesis by blast
qed

lemma apply_filters_obj_old:
  assumes "apply_filters_obj p filters s = (r, s')"
  shows "(\<forall>b < next_ref s. frames s' b = frames s b) \<and> next_ref s \<le> r"
proof -
  let ?c = "fst (copy_frame (self_df p) s)" and ?s1 = "snd (copy_frame (self_df p) s)"
  from assms have l: "apply_filters_loop_obj filters ?c ?s1 = (r, s')"
    by (simp add: apply_filters_obj_def split_beta)
  have c: "?c = next_ref s" "next_ref ?s1 = Suc (next_ref s)"
    "\<And>b. b < next_ref s \<Longrightarrow> frames ?s1 b = frames s b"
    by (simp_all add: copy_frame_def new_frame_def)
  from apply_filters_loop_obj_old [OF l] c show ?thesis
    by auto
qed

text \<open>
  Claim C9. The table the caller passes to the constructor is not changed by the
  constructor (normalisation included, whether it succeeds or raises) nor by a later
  \<^verbatim>\<open>apply_filters\<close>: every object that existed before still holds the same table, the
  processor's own table is not changed by filtering, and the filtered table is a new
  object. The analytic operations are functions of the tables they read and write nothing.
\<close>

theorem input_table_not_mutated:
  assumes "a < next_ref s" and "DataProcessor_init parse a s = (res, s1)"
  shows "frames s1 a = frames s a
       \<and> (\<forall>p filters r s2. res = Inr p \<and> apply_filters_obj p filters s1 = (r, s2)
            \<longrightarrow> frames s2 a = frames s a \<and> frames s2 (self_df p) = frames s1 (self_df p)
              \<and> r \<noteq> a \<and> r \<noteq> self_df p)"
proof -
  from DataProcessor_init_old [OF assms(2)]
  have i: "next_ref s \<le> next_ref s1" "\<And>b. b < next_ref s \<Longrightarrow> frames s1 b = frames s b"
    "\<And>p. res = Inr p \<Longrightarrow> self_df p < next_ref s1"
    by auto
  have 1: "frames s1 a = frames s a"
    using i(2) assms(1) by simp
  have 2: "frames s2 a = frames s a \<and> frames s2 (self_df p) = frames s1 (self_df p)
            \<and> r \<noteq> a \<and> r \<noteq> self_df p"
    if "res = Inr p" and f: "apply_filters_obj p filters s1 = (r, s2)" for p filters r s2
  proof -
    from apply_filters_obj_old [OF f]
    have o: "\<And>b. b < next_ref s1 \<Longrightarrow> frames s2 b = frames s1 b" "next_ref s1 \<le> r"
      by auto
    from i(3) [OF that(1)] have "self_df p < next_ref s1" .
    moreover have "a < next_ref s1" using assms(1) i(1) by simp
    ultimately show ?thesis using o 1 by auto
  qed
  from 1 2 show ?thesis by blast
qed

lemma validate_df1: "validate_data_text (\<lambda>s. None) df1 = Inr df1_canonical"
  by (simp add: df1_def df1_canonical_def validate_eval)



theorem input_table_not_mutated_witness:
  "(0::nat) < next_ref store0
   \<and> frames (snd (DataProcessor_init (\<lambda>s. None) 0 store0)) 0 = df1
   \<and> frames (snd (apply_filters_obj \<lparr>self_df = 3, self_original_df = 2\<rparr> filters2
                (snd (DataProcessor_init (\<lambda>s. None) 0 store0)))) 0 = df1"
proof -
  have h: "(0::nat) < next_ref store0" by (simp add: store0_def)
  obtain res s1 where i: "DataProcessor_init (\<lambda>s. None) 0 store0 = (res, s1)"
    by (cases "DataProcessor_init (\<lambda>s. None) 0 store0") blast
  obtain r s2 where f: "apply_filters_obj \<lparr>self_df = 3, self_original_df = 2\<rparr> filters2 s1 = (r, s2)"
    by (cases "apply_filters_obj \<lparr>self_df = 3, self_original_df = 2\<rparr> filters2 s1") blast
  have v: "validate_data_text (\<lambda>s. None) df1 = Inr df1_canonical" by (rule validate_df1)
  have res: "res = Inr \<lparr>self_df = 3, self_original_df = 2\<rparr>"
    using i v
    by (auto simp: DataProcessor_init_def validate_data_obj_def validate_data_text_def copy_frame_def
        new_frame_def write_frame_def store0_def Let_def split: if_splits option.splits)
  from input_table_not_mutated [OF h i] res f
  have "frames s1 0 = frames store0 0 \<and> frames s2 0 = frames store0 0" by blast
  moreover have "frames store0 0 = df1" by (simp add: store0_def)
  ultimately show ?thesis using h by (simp add: i f)
qed

lemma index_of_Some: "index_of x xs = Some i \<Longrightarrow> i < length xs \<and> xs ! i = x"
  by (induction xs arbitrary: i) (auto split: if_splits)

lemma index_of_None: "index_of x xs = None \<longleftrightarrow> x \<notin> set xs"
  by (induction xs) auto

lemma fillna0_to_numeric_Num: "\<exists>x. fillna0 (to_numeric parse c) = Num x"
  by (cases c) (auto split: option.splits)

lemma mapped_columns_canonical:
  assumes "(req, c) \<in> set (mapped_columns cols)"
  shows "req \<in> set (map fst column_mappings)"
proof -
  from assms have "req \<in> set (map fst (mapped_columns cols))" by force
  then show ?thesis
    unfolding mapped_columns_def mapped_keys by force
qed

lemma rename_dict_mapped:
  assumes "(req, c) \<in> set (mapped_columns cols)"
  shows "\<exists>req'. (req', c) \<in> set (mapped_columns cols) \<and> rename_dict cols c = Some req'"
proof -
  let ?xs = "rev (map (\<lambda>(k, v). (v, k)) (mapped_columns cols))"
  from assms have "(c, req) \<in> set ?xs" by force
  then have "c \<in> fst ` set ?xs" by force
  then obtain r where r: "map_of ?xs c = Some r"
    by (cases "map_of ?xs c") (auto simp: map_of_eq_None_iff)
  from map_of_SomeD [OF r] have "(r, c) \<in> set (mapped_columns cols)" by auto
  with r show ?thesis by (auto simp: rename_dict_def)
qed

lemma rename_dict_distinct:
  assumes "(req, c) \<in> set (mapped_columns cols)" and "distinct (map snd (mapped_columns cols))"
  shows "rename_dict cols c = Some req"
proof -
  let ?xs = "rev (map (\<lambda>(k, v). (v, k)) (mapped_columns cols))"
  have "map fst ?xs = rev (map snd (mapped_columns cols))"
    by (simp add: rev_map comp_def split_beta)
  with assms(2) have d: "distinct (map fst ?xs)" by simp
  from assms(1) have "(c, req) \<in> set ?xs" by force
  from map_of_is_SomeI [OF d this] show ?thesis by (simp add: rename_dict_def)
qed

lemma rename_dict_unmapped:
  assumes "c \<notin> snd ` set (mapped_columns cols)"
  shows "rename_dict cols c = None"
proof -
  have "fst ` set (rev (map (\<lambda>(k, v). (v, k)) (mapped_columns cols))) = snd ` set (mapped_columns cols)"
    by force
  with assms show ?thesis
    unfolding rename_dict_def map_of_eq_None_iff by simp
qed

lemma validate_data_success:
  assumes "validate_data_text parse df = Inr df'"
  shows "columns df' = rename_columns (columns df)"
    and "''TOTAL'' \<in> set (columns df')"
    and "rows df' = map (\<lambda>r. case index_of ''TOTAL'' (columns df') of
                           None \<Rightarrow> r
                         | Some i \<Rightarrow> r[i := fillna0 (to_numeric parse (get_cell (columns df') r ''TOTAL''))])
                     (rows df)"
  using assms
  by (auto simp: validate_data_text_def total_column_check_def coerce_total_def Let_def
           split: if_splits option.splits)

lemma coerced_total_cell:
  assumes "validate_data_text parse df = Inr df'" and "k < length (rows df)"
    and "length (rows df ! k) = length (columns df)"
  shows "get_cell (columns df') (rows df' ! k) ''TOTAL''
          = fillna0 (to_numeric parse (get_cell (columns df') (rows df ! k) ''TOTAL''))"
proof -
  note s = validate_data_success [OF assms(1)]
  from s(2) obtain i where i: "index_of ''TOTAL'' (columns df') = Some i"
    by (cases "index_of ''TOTAL'' (columns df')") (auto simp: index_of_None)
  from index_of_Some [OF i] s(1) have "i < length (columns df)"
    by (simp add: rename_columns_def)
  with assms(3) have l: "i < length (rows df ! k)" by simp
  have "rows df' ! k = (rows df ! k)[i := fillna0 (to_numeric parse (get_cell (columns df') (rows df ! k) ''TOTAL''))]"
    using assms(2) by (simp add: s(3) i)
  then show ?thesis
    using l by (simp add: get_cell_def i)
qed

lemma available_columns_texts: "available_columns (map Text cols) = Inr (map norm_name cols)"
  by (induction cols) simp_all

lemma available_columns_number:
  "Number x \<in> set ls \<Longrightarrow> available_columns ls = Inl AttributeError"
proof (induction ls)
  case Nil
  then show ?case by simp
next
  case (Cons l ls)
  show ?case
  proof (cases l)
    case (Text c)
    with Cons show ?thesis by auto
  next
    case (Number y)
    then show ?thesis by simp
  qed
qed

lemma validate_data_texts:
  assumes "labels raw = map Text cols"
  shows "validate_data parse raw = validate_data_text parse \<lparr>columns = cols, rows = cells raw\<rparr>"
proof -
  have "map text_of (map Text cols) = cols"
    by (induction cols) simp_all
  then show ?thesis
    by (simp add: validate_data_def assms available_columns_texts)
qed

lemma validate_data_text_missing:
  assumes "m \<in> set (map fst column_mappings) \<and> map_column (columns df) (variations_of m) = None"
  shows "validate_data_text parse df = Inl (ValueError (error_msg (columns df)))
      \<and> sublist (quote m) (error_msg (columns df))
      \<and> sublist (suggestion m) (error_msg (columns df))
      \<and> (\<forall>c \<in> set (columns df). sublist c (error_msg (columns df)))"
proof -
  from assms have mm: "m \<in> set (missing_required (columns df))"
    by (simp only: missing_required_iff)
  then have ne: "missing_required (columns df) \<noteq> []" by auto
  have 1: "validate_data_text parse df = Inl (ValueError (error_msg (columns df)))"
    using ne by (simp add: validate_data_text_def)
  from 1 missing_in_msg [OF mm] suggestion_in_msg [OF mm] column_in_msg show ?thesis by blast
qed

lemma validate_data_text_renamed:
  assumes v: "validate_data_text parse df = Inr df'"
  shows "length (columns df') = length (columns df)
      \<and> (\<forall>i < length (columns df). \<forall>req. (req, columns df ! i) \<in> set (mapped_columns (columns df)) \<longrightarrow>
             columns df' ! i \<in> set (map fst column_mappings)
             \<and> ((\<forall>req'. (req', columns df ! i) \<in> set (mapped_columns (columns df)) \<longrightarrow> req' = req)
                   \<longrightarrow> columns df' ! i = req))
      \<and> (\<forall>i < length (columns df). columns df ! i \<notin> snd ` set (mapped_columns (columns df))
             \<longrightarrow> columns df' ! i = columns df ! i)
      \<and> length (rows df') = length (rows df)
      \<and> (\<forall>k < length (rows df). length (rows df ! k) = length (columns df) \<longrightarrow>
            (\<exists>x. get_cell (columns df') (rows df' ! k) ''TOTAL'' = Num x)
          \<and> get_cell (columns df') (rows df' ! k) ''TOTAL''
              = fillna0 (to_numeric parse (get_cell (columns df') (rows df ! k) ''TOTAL'')))"
proof -
  note s = validate_data_success [OF v]
  have c: "columns df' ! i = (case rename_dict (columns df) (columns df ! i) of
              Some k \<Rightarrow> k | None \<Rightarrow> columns df ! i)" if "i < length (columns df)" for i
    using that by (simp add: s(1) rename_columns_def)
  have 1: "length (columns df') = length (columns df)"
    by (simp add: s(1) rename_columns_def)
  have 2: "columns df' ! i \<in> set (map fst column_mappings)
           \<and> ((\<forall>req'. (req', columns df ! i) \<in> set (mapped_columns (columns df)) \<longrightarrow> req' = req)
                 \<longrightarrow> columns df' ! i = req)"
    if "i < length (columns df)" and r: "(req, columns df ! i) \<in> set (mapped_columns (columns df))"
    for i req
  proof -
    from rename_dict_mapped [OF r] obtain req'
      where q: "(req', columns df ! i) \<in> set (mapped_columns (columns df))"
        "rename_dict (columns df) (columns df ! i) = Some req'" by blast
    from q(2) c [OF that(1)] have e: "columns df' ! i = req'" by simp
    from mapped_columns_canonical [OF q(1)] e
    have a: "columns df' ! i \<in> set (map fst column_mappings)" by simp
    have b: "columns df' ! i = req"
      if "\<forall>req'. (req', columns df ! i) \<in> set (mapped_columns (columns df)) \<longrightarrow> req' = req"
      using that q(1) e by blast
    from a b show ?thesis by blast
  qed
  have 3: "columns df' ! i = columns df ! i"
    if "i < length (columns df)" "columns df ! i \<notin> snd ` set (mapped_columns (columns df))" for i
    using rename_dict_unmapped [OF that(2)] c [OF that(1)] by simp
  have 4: "length (rows df') = length (rows df)"
    by (simp add: s(3))
  have 5: "(\<exists>x. get_cell (columns df') (rows df' ! k) ''TOTAL'' = Num x)
        \<and> get_cell (columns df') (rows df' ! k) ''TOTAL''
            = fillna0 (to_numeric parse (get_cell (columns df') (rows df ! k) ''TOTAL''))"
    if "k < length (rows df)" "length (rows df ! k) = length (columns df)" for k
    using coerced_total_cell [OF v that] fillna0_to_numeric_Num by simp
  from 1 2 3 4 5 show ?thesis by blast
qed

text \<open>
  Claim C7, as amended. For a raw table whose column labels are all strings: when a
  canonical field cannot be mapped, loading fails with a \<^verbatim>\<open>ValueError\<close> whose
  message holds the quoted name of every missing field, every raw column name and, for
  each missing field, the line that lists its first three variations (not all the
  variations searched for). When loading succeeds, the matched columns carry canonical
  names (a column matched for one field only carries the name of that field), the other
  columns keep their names, and every \<^verbatim>\<open>TOTAL\<close> cell of a full row is a number: the
  coerced value of the old cell, 0 for a blank or a text that does not parse.
\<close>

theorem schema_mapping_contract:
  "(labels raw = map Text cols \<and> m \<in> set (map fst column_mappings)
      \<and> map_column cols (variations_of m) = None \<longrightarrow>
      validate_data parse raw = Inl (ValueError (error_msg cols))
      \<and> sublist (quote m) (error_msg cols)
      \<and> sublist (suggestion m) (error_msg cols)
      \<and> suggestion m = m @ '': looking for columns like '' @ join '', '' (take 3 (variations_of m))
      \<and> (\<forall>c \<in> set cols. sublist c (error_msg cols)))
   \<and> (labels raw = map Text cols \<and> validate_data parse raw = Inr df' \<longrightarrow>
        length (columns df') = length cols
      \<and> (\<forall>i < length cols. \<forall>req. (req, cols ! i) \<in> set (mapped_columns cols) \<longrightarrow>
             columns df' ! i \<in> set (map fst column_mappings)
             \<and> ((\<forall>req'. (req', cols ! i) \<in> set (mapped_columns cols) \<longrightarrow> req' = req)
                   \<longrightarrow> columns df' ! i = req))
      \<and> (\<forall>i < length cols. cols ! i \<notin> snd ` set (mapped_columns cols)
             \<longrightarrow> columns df' ! i = cols ! i)
      \<and> length (rows df') = length (cells raw)
      \<and> (\<forall>k < length (cells raw). length (cells raw ! k) = length cols \<longrightarrow>
            (\<exists>x. get_cell (columns df') (rows df' ! k) ''TOTAL'' = Num x)
          \<and> get_cell (columns df') (rows df' ! k) ''TOTAL''
              = fillna0 (to_numeric parse (get_cell (columns df') (cells raw ! k) ''TOTAL''))))
   \<and> (parse s = None \<longrightarrow> fillna0 (to_numeric parse (Str s)) = Num 0)
   \<and> fillna0 (to_numeric parse NA) = Num 0"
proof -
  let ?df = "\<lparr>columns = cols, rows = cells raw\<rparr>"
  have A: "validate_data parse raw = Inl (ValueError (error_msg cols))
      \<and> sublist (quote m) (error_msg cols)
      \<and> sublist (suggestion m) (error_msg cols)
      \<and> suggestion m = m @ '': looking for columns like '' @ join '', '' (take 3 (variations_of m))
      \<and> (\<forall>c \<in> set cols. sublist c (error_msg cols))"
    if h: "labels raw = map Text cols \<and> m \<in> set (map fst column_mappings)
      \<and> map_column cols (variations_of m) = None"
  proof -
    from h validate_data_texts [of raw cols parse]
    have e: "validate_data parse raw = validate_data_text parse ?df"
      by simp
    from h have "m \<in> set (map fst column_mappings) \<and> map_column (columns ?df) (variations_of m) = None"
      by simp
    from validate_data_text_missing [OF this, of parse] e show ?thesis
      by (simp add: suggestion_def)
  qed
  have B: "length (columns df') = length cols
      \<and> (\<forall>i < length cols. \<forall>req. (req, cols ! i) \<in> set (mapped_columns cols) \<longrightarrow>
             columns df' ! i \<in> set (map fst column_mappings)
             \<and> ((\<forall>req'. (req', cols ! i) \<in> set (mapped_columns cols) \<longrightarrow> req' = req)
                   \<longrightarrow> columns df' ! i = req))
      \<and> (\<forall>i < length cols. cols ! i \<notin> snd ` set (mapped_columns cols)
             \<longrightarrow> columns df' ! i = cols ! i)
      \<and> length (rows df') = length (cells raw)
      \<and> (\<forall>k < length (cells raw). length (cells raw ! k) = length cols \<longrightarrow>
            (\<exists>x. get_cell (columns df') (rows df' ! k) ''TOTAL'' = Num x)
          \<and> get_cell (columns df') (rows df' ! k) ''TOTAL''
              = fillna0 (to_numeric parse (get_cell (columns df') (cells raw ! k) ''TOTAL'')))"
    if h: "labels raw = map Text cols \<and> validate_data parse raw = Inr df'"
  proof -
    from h validate_data_texts [of raw cols parse]
    have "validate_data_text parse ?df = Inr df'"
      by simp
    from validate_data_text_renamed [OF this] show ?thesis
      unfolding dataframe.select_convs .
  qed
  have C: "parse s = None \<longrightarrow> fillna0 (to_numeric parse (Str s)) = Num 0"
    by simp
  have D: "fillna0 (to_numeric parse NA) = Num 0"
    by simp
  from A B C D show ?thesis by blast
qed

text \<open>
  The claim as stated fails. With the columns \<^verbatim>\<open>Grade\<close>, \<^verbatim>\<open>Module\<close> and
  \<^verbatim>\<open>Component\<close> the field \<^verbatim>\<open>TOTAL\<close> is missing, \<^verbatim>\<open>sum\<close> is one of the
  variations searched for it (a column \<^verbatim>\<open>Sum\<close> is accepted), and the message does not
  contain \<^verbatim>\<open>sum\<close>. With the columns \<^verbatim>\<open>Grade\<close>, \<^verbatim>\<open>Module\<close> and a column
  whose label is the number 2024, two fields are missing and loading fails with an
  \<^verbatim>\<open>AttributeError\<close>, which names no field and no column.
\<close>

theorem schema_error_variants_counterexample:
  "map_column cols0 (variations_of ''TOTAL'') = None
   \<and> ''sum'' \<in> set (variations_of ''TOTAL'')
   \<and> map_column [''Sum''] (variations_of ''TOTAL'') = Some ''Sum''
   \<and> validate_data (\<lambda>s. None) raw0 = Inl (ValueError (error_msg cols0))
   \<and> \<not> sublist ''sum'' (error_msg cols0)
   \<and> validate_data (\<lambda>s. None) raw_numbered = Inl AttributeError"
  by (simp add: cols0_def raw0_def raw_numbered_def validate_data_def validate_eval)

theorem schema_mapping_contract_witness:
  "labels raw0 = map Text cols0
   \<and> ''TOTAL'' \<in> set (map fst column_mappings)
   \<and> map_column cols0 (variations_of ''TOTAL'') = None
   \<and> validate_data (\<lambda>s. None) raw0 = Inl (ValueError (error_msg cols0))
   \<and> sublist (quote ''TOTAL'') (error_msg cols0)
   \<and> sublist ''TOTAL: looking for columns like total, total people, people'' (error_msg cols0)
   \<and> sublist ''Module'' (error_msg cols0)
   \<and> labels raw1 = map Text (columns df1)
   \<and> validate_data (\<lambda>s. None) raw1 = Inr df1_canonical
   \<and> columns df1_canonical ! 3 = ''TOTAL''
   \<and> get_cell (columns df1_canonical) (rows df1_canonical ! 0) ''TOTAL'' = Num 0"
proof -
  have h: "labels raw0 = map Text cols0 \<and> ''TOTAL'' \<in> set (map fst column_mappings)
      \<and> map_column cols0 (variations_of ''TOTAL'') = None"
    by (simp add: cols0_def raw0_def validate_eval)
  have m: "''Module'' \<in> set cols0"
    by (simp add: cols0_def)
  have sg: "''TOTAL'' @ '': looking for columns like '' @ join '', '' (take 3 (variations_of ''TOTAL''))
      = ''TOTAL: looking for columns like total, total people, people''"
    by (simp add: variations_of_def column_mappings_def)
  from schema_mapping_contract [of raw0 cols0 "''TOTAL''" "\<lambda>s. None"] h
  have a: "validate_data (\<lambda>s. None) raw0 = Inl (ValueError (error_msg cols0))"
    "sublist (quote ''TOTAL'') (error_msg cols0)"
    "sublist (suggestion ''TOTAL'') (error_msg cols0)"
    "suggestion ''TOTAL'' = ''TOTAL'' @ '': looking for columns like '' @ join '', '' (take 3 (variations_of ''TOTAL''))"
    "\<forall>c \<in> set cols0. sublist c (error_msg cols0)"
    by blast+
  from a(3) a(4) sg
  have a3: "sublist ''TOTAL: looking for columns like total, total people, people'' (error_msg cols0)"
    by simp
  from a(5) m have a5: "sublist ''Module'' (error_msg cols0)"
    by blast
  have l: "labels raw1 = map Text (columns df1)"
    by (simp add: raw1_def df1_def)
  have c1: "cells raw1 = rows df1"
    by (simp add: raw1_def df1_def)
  have "\<lparr>columns = columns df1, rows = cells raw1\<rparr> = df1"
    by (simp add: c1)
  with validate_data_texts [OF l, of "\<lambda>s. None"] validate_df1
  have v: "validate_data (\<lambda>s. None) raw1 = Inr df1_canonical"
    by simp
  have k: "(0::nat) < length (cells raw1)" "length (cells raw1 ! 0) = length (columns df1)"
    "(3::nat) < length (columns df1)"
    by (simp_all add: raw1_def df1_def)
  have t3: "(''TOTAL'', columns df1 ! 3) \<in> set (mapped_columns (columns df1))"
    "\<forall>req'. (req', columns df1 ! 3) \<in> set (mapped_columns (columns df1)) \<longrightarrow> req' = ''TOTAL''"
    by (simp_all add: df1_def validate_eval)
  have p: "fillna0 (to_numeric (\<lambda>s. None) (get_cell (columns df1_canonical) (cells raw1 ! 0) ''TOTAL'')) = Num 0"
    by (simp add: raw1_def df1_canonical_def get_cell_def)
  from schema_mapping_contract [of raw1 "columns df1" _ "\<lambda>s. None" df1_canonical] l v
  have b: "\<forall>i < length (columns df1). \<forall>req. (req, columns df1 ! i) \<in> set (mapped_columns (columns df1)) \<longrightarrow>
             columns df1_canonical ! i \<in> set (map fst column_mappings)
             \<and> ((\<forall>req'. (req', columns df1 ! i) \<in> set (mapped_columns (columns df1)) \<longrightarrow> req' = req)
                   \<longrightarrow> columns df1_canonical ! i = req)"
    "\<forall>k < length (cells raw1). length (cells raw1 ! k) = length (columns df1) \<longrightarrow>
        (\<exists>x. get_cell (columns df1_canonical) (rows df1_canonical ! k) ''TOTAL'' = Num x)
      \<and> get_cell (columns df1_canonical) (rows df1_canonical ! k) ''TOTAL''
          = fillna0 (to_numeric (\<lambda>s. None) (get_cell (columns df1_canonical) (cells raw1 ! k) ''TOTAL''))"
    by blast+
  from b(1) k(3) t3 have c3: "columns df1_canonical ! 3 = ''TOTAL''"
    by blast
  from b(2) k(1) k(2) p have c0: "get_cell (columns df1_canonical) (rows df1_canonical ! 0) ''TOTAL'' = Num 0"
    by simp
  from h a(1) a(2) a3 a5 l v c3 c0 show ?thesis by blast
qed

lemmas table_eval =
  get_demographic_columns_def is_demographic_def exclude_patterns_def
  approved_demographic_patterns_def string_eval empty_frame_def col_sum_def get_cell_def

lemma demographic_columns_df_gap: "get_demographic_columns df_gap = [''AAM'']"
  by (simp add: df_gap_def table_eval)

lemma round2_11: "round2 11 = 11" and round2_1: "round2 1 = 1"
  by (simp_all add: round2_def round_half_even_def)

subsection \<open>Gap records\<close>

text \<open>
  Claim C1. In a record of \<^verbatim>\<open>calculate_demographic_gaps\<close> the gap is the actual
  percentage minus the target percentage, and the claim wants the status
  \<^verbatim>\<open>on_target\<close> exactly when the gap is within two points. At 11 people of 100 and a
  target of 10 the gap is 1, within the band, and the code's status is
  \<^verbatim>\<open>Over Target\<close>: it is taken from the sign of the gap. The exporter's status
  (\<^const>\<open>band_status_of\<close>) has the band.
\<close>

theorem gap_status_without_band:
  "calculate_demographic_gaps df_gap df_gap [''AAM'' \<mapsto> 10]
     = Inr [\<lparr>Demographic = ''AAM'', Actual_Count = 11, Actual_pct = 11, Target_pct = 10,
             Gap = 1, Gap_Status = Over_Target\<rparr>]
   \<and> \<bar>1 :: real\<bar> \<le> 2
   \<and> band_status_of 1 = on_target"
  by (simp add: calculate_demographic_gaps_def demographic_columns_df_gap gap_row_def
      round2_11 round2_1 band_status_of_def Let_def)
     (simp add: df_gap_def empty_frame_def col_sum_def get_cell_def round2_11 round2_1)

subsection \<open>Resolution of targets\<close>













subsection \<open>Division by a zero total\<close>

text \<open>
  Claim C3. A percentage whose summed total is 0 is to be 0, without an undefined value.
  \<^verbatim>\<open>generate_equity_scorecard\<close> divides by the summed total without a guard: on a
  table whose total is 0 the actual percentage of the scorecard is \<^verbatim>\<open>nan\<close>. The
  percentages by module leave the module out.
\<close>

theorem scorecard_divides_by_zero_total:
  "col_sum df_zero ''TOTAL'' = 0
   \<and> generate_equity_scorecard df_zero [''AAM''] Map.empty
     = \<lparr>overall_score = 0,
        demographic_scores = [(''AAM'', \<lparr>ds_score = 0, ds_actual = NaN, ds_target = 10, ds_gap = NaN\<rparr>)],
        recommendations = []\<rparr>
   \<and> calculate_demographic_percentages df_zero df_zero = []"
  by (simp add: generate_equity_scorecard_def scorecard_step_def np_pct_def target_pct_of_def
      calculate_demographic_percentages_def entities_def entity_data_of_def unique_def
      List.map_filter_def Let_def df_zero_def table_eval)

end
